theory Spec2Isabelle
  imports Main
begin

section \<open>JavaScript values\<close>

text \<open>
  The values that travel through the RPC layer. Numbers are the integral ones (every number
  the two source files create is the result of \<^verbatim>\<open>Math.floor\<close> or a tab id); \<open>JEmptyObj\<close> is
  the object \<^verbatim>\<open>{}\<close>, \<open>JBoxed v\<close> the wrapper object \<^verbatim>\<open>Object(v)\<close> of a primitive \<open>v\<close>, and
  \<open>JTypeError\<close> and \<open>JEvalError\<close> are the \<^verbatim>\<open>TypeError\<close> and \<^verbatim>\<open>EvalError\<close> instances raised
  by the runtime.
\<close>

datatype jsval =
    JUndefined
  | JNull
  | JBool bool
  | JNum int
  | JStr string
  | JArr "jsval list"
  | JEmptyObj
  | JBoxed jsval
  | JTypeError
  | JEvalError

text \<open>\<^verbatim>\<open>ToBoolean\<close>: what \<^verbatim>\<open>if(x)\<close>, \<^verbatim>\<open>!x\<close> and \<^verbatim>\<open>x || y\<close> test.\<close>

fun truthy :: "jsval \<Rightarrow> bool" where
  "truthy JUndefined = False"
| "truthy JNull = False"
| "truthy (JBool b) = b"
| "truthy (JNum n) = (n \<noteq> 0)"
| "truthy (JStr s) = (s \<noteq> [])"
| "truthy (JArr xs) = True"
| "truthy JEmptyObj = True"
| "truthy (JBoxed v) = True"
| "truthy JTypeError = True"
| "truthy JEvalError = True"

fun is_object :: "jsval \<Rightarrow> bool" where
  "is_object (JArr xs) = True"
| "is_object JEmptyObj = True"
| "is_object (JBoxed v) = True"
| "is_object JTypeError = True"
| "is_object JEvalError = True"
| "is_object v = False"

text \<open>
  The argument list that \<^verbatim>\<open>f.apply(null, a)\<close> passes to \<open>f\<close>: none for \<^verbatim>\<open>undefined\<close> and
  \<^verbatim>\<open>null\<close>, the elements of an array, the characters of a boxed string, none for any other
  object (it has no \<^verbatim>\<open>length\<close>); a primitive raises a \<^verbatim>\<open>TypeError\<close> (\<open>None\<close>).
\<close>

fun apply_args :: "jsval \<Rightarrow> jsval list option" where
  "apply_args JUndefined = Some []"
| "apply_args JNull = Some []"
| "apply_args (JArr xs) = Some xs"
| "apply_args JEmptyObj = Some []"
| "apply_args (JBoxed (JStr s)) = Some (map (\<lambda>c. JStr [c]) s)"
| "apply_args (JBoxed v) = Some []"
| "apply_args JTypeError = Some []"
| "apply_args JEvalError = Some []"
| "apply_args (JBool b) = None"
| "apply_args (JNum n) = None"
| "apply_args (JStr s) = None"

text \<open>The first positional argument of a call: \<^verbatim>\<open>undefined\<close> when there is none.\<close>

fun first_arg :: "jsval list \<Rightarrow> jsval" where
  "first_arg [] = JUndefined"
| "first_arg (v # vs) = v"

section \<open>Handlers and the method registry\<close>

text \<open>
  A handler either returns a value at once, returns a Promise, or throws. A Promise is
  described by how it settles: fulfilled with a value, rejected with a reason, or never.
\<close>

datatype settle = Fulfil jsval | Reject jsval | Never

datatype hresult = Returns jsval | ReturnsPromise settle | Throws jsval

type_synonym handler = "jsval list \<Rightarrow> hresult"

text \<open>What reading a property of the registry object can give: a function, a truthy value
  that is no function (it has no \<^verbatim>\<open>apply\<close>), or a \<^verbatim>\<open>TypeError\<close> raised by the read itself.
  A falsy value, like a property that is not found, is \<open>None\<close>.\<close>

datatype mvalue = Callable handler | NotCallable | Raising

text \<open>
  A property that an object inherits, as the registry sees it. Reading it gives a value,
  throws (an accessor whose getter throws), or gives the object's prototype (the accessor
  \<^verbatim>\<open>__proto__\<close>). Assigning to it through the inheriting object creates an own property
  (a writable data property), is silently dropped (a non-writable one; neither source file
  is in strict mode), throws (an accessor whose setter throws), or replaces the object's
  prototype (\<^verbatim>\<open>__proto__\<close>).
\<close>

datatype on_read = Reads "mvalue option" | ReadThrows | ReadsPrototype

datatype on_write = Creates | Dropped | WriteThrows | SetsPrototype

type_synonym properties = "string \<Rightarrow> (on_read \<times> on_write) option"

text \<open>
  A function object: what it does when applied (through the \<^verbatim>\<open>apply\<close> that every function
  inherits), and the properties that an object whose prototype is this function inherits
  from it and from the rest of its prototype chain.
\<close>

record jsfun =
  body :: handler
  props :: properties

text \<open>
  Both registries of methods are created as \<^verbatim>\<open>{}\<close>, so a read \<^verbatim>\<open>_methods[name]\<close> that finds no
  own property continues in \<^verbatim>\<open>Object.prototype\<close>. These are its standard properties, each
  function as it behaves when applied with \<^verbatim>\<open>this = null\<close>, which is how both dispatchers
  apply a handler. All of them are writable, except the accessor \<^verbatim>\<open>__proto__\<close>.
\<close>

definition to_object :: "jsval \<Rightarrow> jsval" where
  "to_object v =
     (if v = JUndefined \<or> v = JNull then JEmptyObj
      else if is_object v then v else JBoxed v)"

definition object_prototype :: properties where
  "object_prototype name =
     (if name = ''toString'' then
        Some (Reads (Some (Callable (\<lambda>as. Returns (JStr ''[object Null]'')))), Creates)
      else if name = ''constructor'' then
        Some (Reads (Some (Callable (\<lambda>as. Returns (to_object (first_arg as))))), Creates)
      else if name = ''isPrototypeOf'' then
        Some (Reads (Some (Callable (\<lambda>as. if is_object (first_arg as) then Throws JTypeError
                                            else Returns (JBool False)))), Creates)
      else if name \<in> set [''hasOwnProperty'', ''propertyIsEnumerable'', ''toLocaleString'',
                           ''valueOf'', ''__defineGetter__'', ''__defineSetter__'',
                           ''__lookupGetter__'', ''__lookupSetter__'']
        then Some (Reads (Some (Callable (\<lambda>as. Throws JTypeError))), Creates)
      else if name = ''__proto__'' then Some (ReadsPrototype, SetsPrototype)
      else None)"

text \<open>
  The registry object: its own properties, and its prototype, which is \<^verbatim>\<open>Object.prototype\<close>
  (\<open>None\<close>) until an assignment to \<^verbatim>\<open>__proto__\<close> replaces it by the function assigned.
\<close>

record registry =
  own :: "string \<rightharpoonup> jsfun"
  proto :: "jsfun option"

definition new_registry :: registry where
  "new_registry = \<lparr>own = Map.empty, proto = None\<rparr>"

definition inherited :: "registry \<Rightarrow> properties" where
  "inherited ms = (case proto ms of None \<Rightarrow> object_prototype | Some f \<Rightarrow> props f)"

text \<open>The read \<^verbatim>\<open>_methods[name]\<close>.\<close>

definition lookup_method :: "registry \<Rightarrow> string \<Rightarrow> mvalue option" where
  "lookup_method ms name =
     (case own ms name of
          Some f \<Rightarrow> Some (Callable (body f))
        | None \<Rightarrow>
            (case inherited ms name of
                None \<Rightarrow> None
              | Some (Reads v, w) \<Rightarrow> v
              | Some (ReadThrows, w) \<Rightarrow> Some Raising
              | Some (ReadsPrototype, w) \<Rightarrow>
                  (case proto ms of None \<Rightarrow> Some NotCallable
                                  | Some f \<Rightarrow> Some (Callable (body f)))))"

text \<open>The assignment \<^verbatim>\<open>_methods[name] = f\<close>: the new registry, or the error thrown.\<close>

definition assign_method :: "registry \<Rightarrow> string \<Rightarrow> jsfun \<Rightarrow> jsval + registry" where
  "assign_method ms name f =
     (case own ms name of
          Some g \<Rightarrow> Inr (ms\<lparr>own := (own ms)(name \<mapsto> f)\<rparr>)
        | None \<Rightarrow>
            (case inherited ms name of
                None \<Rightarrow> Inr (ms\<lparr>own := (own ms)(name \<mapsto> f)\<rparr>)
              | Some (r, Creates) \<Rightarrow> Inr (ms\<lparr>own := (own ms)(name \<mapsto> f)\<rparr>)
              | Some (r, Dropped) \<Rightarrow> Inr ms
              | Some (r, WriteThrows) \<Rightarrow> Inl JTypeError
              | Some (r, SetsPrototype) \<Rightarrow> Inr (ms\<lparr>proto := Some f\<rparr>)))"

text \<open>
  An arrow function with \<open>n\<close> declared parameters and the name \<open>nm\<close>, as a prototype. Its
  own \<^verbatim>\<open>length\<close> and \<^verbatim>\<open>name\<close> are not writable and are no functions (and falsy when 0 or
  empty); then come the properties of \<^verbatim>\<open>Function.prototype\<close>: \<^verbatim>\<open>apply\<close>, \<^verbatim>\<open>bind\<close>, \<^verbatim>\<open>call\<close>
  and \<^verbatim>\<open>toString\<close>, which throw when applied with \<^verbatim>\<open>this = null\<close>, the accessors
  \<^verbatim>\<open>arguments\<close> and \<^verbatim>\<open>caller\<close>, which throw on every read and write, and \<^verbatim>\<open>constructor\<close>;
  then those of \<^verbatim>\<open>Object.prototype\<close>. The constructor \<^verbatim>\<open>Function\<close> is taken in a realm
  whose content security policy refuses code from strings, as the extension's pages do.
\<close>

definition Function_constructor :: handler where
  "Function_constructor as = Throws JEvalError"

definition arrow_function :: "nat \<Rightarrow> string \<Rightarrow> handler \<Rightarrow> jsfun" where
  "arrow_function n nm h =
     \<lparr>body = h,
      props = (\<lambda>name.
        if name = ''length'' then Some (Reads (if n = 0 then None else Some NotCallable), Dropped)
        else if name = ''name'' then
          Some (Reads (if nm = [] then None else Some NotCallable), Dropped)
        else if name \<in> set [''apply'', ''bind'', ''call'', ''toString''] then
          Some (Reads (Some (Callable (\<lambda>as. Throws JTypeError))), Creates)
        else if name \<in> set [''arguments'', ''caller''] then Some (ReadThrows, WriteThrows)
        else if name = ''constructor'' then
          Some (Reads (Some (Callable Function_constructor)), Creates)
        else object_prototype name)\<rparr>"

section \<open>The window binding: PostRPC\<close>

text \<open>
  One record for both shapes of message, as in the source, where a request and a response
  are told apart by their fields: a field that is absent is \<open>None\<close> (\<open>JUndefined\<close> for the
  two fields that hold arbitrary values). \<open>meth\<close> (the source's \<^verbatim>\<open>method\<close>) is a string, \<open>callId\<close> and \<open>frm\<close>
  (the source's \<^verbatim>\<open>from\<close>) are numbers.
\<close>

record message =
  meth :: "string option"
  args :: jsval
  callId :: "int option"
  frm :: "int option"
  val :: jsval

text \<open>The message event: \<^verbatim>\<open>event.data\<close> is absent (or falsy), or an object with envelopes
  under its keys.\<close>

record event =
  ev_data :: "(string \<times> message) list option"

text \<open>
  An instance. \<open>calls\<close> maps a call id to the \<^verbatim>\<open>resolve\<close> function stored under it, named
  by the number of the Promise it resolves; \<open>promises\<close> counts the Promises the instance has
  created, so that each call gets a new one.
\<close>

record post_rpc =
  rpc_id :: int
  ns :: string
  calls :: "int \<rightharpoonup> nat"
  methods :: registry
  targetOrigin :: string
  promises :: nat

text \<open>What an operation does to the world, in order.\<close>

datatype effect =
    PostMessage "(string \<times> message) list" string
  | ConsoleLog string
  | Applied string "jsval list"
  | Resolved nat jsval

text \<open>How the \<^verbatim>\<open>async\<close> function \<^verbatim>\<open>_receiveMessage\<close> ends: its Promise is fulfilled, is
  rejected with what was thrown, or stays pending at the \<^verbatim>\<open>await\<close>.\<close>

datatype completion = Completed | Failed jsval | Suspended

text \<open>The constructor; \<open>r\<close> is the value of \<^verbatim>\<open>Math.floor(Math.random()*1000000)\<close>.\<close>

definition PostRPC :: "string \<Rightarrow> string \<Rightarrow> int \<Rightarrow> post_rpc" where
  "PostRPC name origin r =
     \<lparr>rpc_id = r, ns = ''__PostRPC_'' @ name, calls = Map.empty, methods = new_registry,
      targetOrigin = origin, promises = 0\<rparr>"

text \<open>\<^verbatim>\<open>this._methods[name] = fun\<close>: the instance afterwards, or the error thrown.\<close>

definition register :: "post_rpc \<Rightarrow> string \<Rightarrow> jsfun \<Rightarrow> jsval + post_rpc" where
  "register s name f =
     (case assign_method (methods s) name f of
          Inl e \<Rightarrow> Inl e
        | Inr ms \<Rightarrow> Inr (s\<lparr>methods := ms\<rparr>))"

definition sendMessage :: "post_rpc \<Rightarrow> message \<Rightarrow> effect" where
  "sendMessage s m = PostMessage [(ns s, m)] (targetOrigin s)"

text \<open>\<open>call s m a r\<close>: \<open>r\<close> is the random call id drawn inside. Returns the new state, the
  Promise handed to the caller and the message posted.\<close>

definition call :: "post_rpc \<Rightarrow> string \<Rightarrow> jsval \<Rightarrow> int \<Rightarrow> post_rpc \<times> nat \<times> effect list" where
  "call s m a r =
     (let p = promises s;
          s' = s\<lparr>calls := (calls s)(r \<mapsto> p), promises := Suc p\<rparr>;
          a' = (if \<not> truthy a then JArr [] else a)
      in (s', p, [sendMessage s' \<lparr>meth = Some m, args = a', callId = Some r,
                                  frm = Some (rpc_id s'), val = JUndefined\<rparr>]))"

definition handle_request :: "post_rpc \<Rightarrow> message \<Rightarrow> string \<Rightarrow> post_rpc \<times> effect list \<times> completion" where
  "handle_request s data m =
     (if frm data = Some (rpc_id s) then (s, [], Completed)
      else case lookup_method (methods s) m of
          None \<Rightarrow> (s, [ConsoleLog (''PostRPC: no handler for '' @ m)], Completed)
        | Some Raising \<Rightarrow> (s, [], Failed JTypeError)
        | Some NotCallable \<Rightarrow> (s, [], Failed JTypeError)
        | Some (Callable h) \<Rightarrow>
            (case apply_args (args data) of
                None \<Rightarrow> (s, [], Failed JTypeError)
              | Some as \<Rightarrow>
                  (let reply = (\<lambda>res. sendMessage s \<lparr>meth = None, args = JUndefined,
                                   callId = callId data, frm = None, val = JArr [res]\<rparr>)
                   in case h as of
                       Throws e \<Rightarrow> (s, [Applied m as], Failed e)
                     | Returns res \<Rightarrow> (s, [Applied m as, reply res], Completed)
                     | ReturnsPromise (Fulfil res) \<Rightarrow> (s, [Applied m as, reply res], Completed)
                     | ReturnsPromise (Reject e) \<Rightarrow> (s, [Applied m as], Failed e)
                     | ReturnsPromise Never \<Rightarrow> (s, [Applied m as], Suspended))))"

definition handle_response :: "post_rpc \<Rightarrow> message \<Rightarrow> post_rpc \<times> effect list \<times> completion" where
  "handle_response s data =
     (case callId data of
          None \<Rightarrow> (s, [], Completed)
        | Some k \<Rightarrow>
            (case calls s k of
                None \<Rightarrow> (s, [], Completed)
              | Some c \<Rightarrow>
                  (let s' = s\<lparr>calls := (calls s)(k := None)\<rparr>
                   in case apply_args (val data) of
                       None \<Rightarrow> (s', [], Failed JTypeError)
                     | Some vs \<Rightarrow> (s', [Resolved c (first_arg vs)], Completed))))"

text \<open>\<^verbatim>\<open>if(data.method)\<close> tests truthiness: a method that is absent or the empty string
  sends the message down the response branch.\<close>

definition receiveMessage :: "post_rpc \<Rightarrow> event \<Rightarrow> post_rpc \<times> effect list \<times> completion" where
  "receiveMessage s ev =
     (case ev_data ev of
          None \<Rightarrow> (s, [], Completed)
        | Some d \<Rightarrow>
            (case map_of d (ns s) of
                None \<Rightarrow> (s, [], Completed)
              | Some data \<Rightarrow>
                  (case meth data of
                      None \<Rightarrow> handle_response s data
                    | Some m \<Rightarrow>
                        if m \<noteq> [] then handle_request s data m
                        else handle_response s data)))"

section \<open>The channel binding: Browser.rpc\<close>

record chan_message =
  cm_method :: "string option"
  cm_args :: jsval

record tab =
  tab_id :: int

text \<open>The sender of a message: its tab, when it is in one, and the URL of its page.\<close>

record sender =
  sender_tab :: "tab option"
  sender_url :: string

text \<open>\<^verbatim>\<open>Browser.rpc\<close>: \<open>rpc_methods\<close> is \<open>None\<close> until the first registration; \<open>listeners\<close>
  counts the calls of \<^verbatim>\<open>browser.runtime.onMessage.addListener\<close>.\<close>

record browser_rpc =
  rpc_methods :: "registry option"
  listeners :: nat

definition rpc_register :: "browser_rpc \<Rightarrow> string \<Rightarrow> jsfun \<Rightarrow> jsval + browser_rpc" where
  "rpc_register b name h =
     (let b' = (case rpc_methods b of
                    None \<Rightarrow> b\<lparr>rpc_methods := Some new_registry, listeners := Suc (listeners b)\<rparr>
                  | Some ms \<Rightarrow> b)
      in case rpc_methods b' of
           None \<Rightarrow> Inr b'
         | Some ms \<Rightarrow>
             (case assign_method ms name h of
                  Inl e \<Rightarrow> Inl e
                | Inr ms' \<Rightarrow> Inr (b'\<lparr>rpc_methods := Some ms'\<rparr>)))"

text \<open>What the listener does before it returns, what it returns (or throws), and what
  happens later, when a Promise returned by the handler settles.\<close>

datatype chan_effect = BrowserLog chan_message | Invoked string "jsval list" | Reply jsval

datatype listener_return = RetUndefined | RetTrue | RetFalse | Thrown jsval

datatype later = Nothing | ReplyLater jsval | RejectedLater jsval | NeverSettles

text \<open>The property key that \<^verbatim>\<open>_methods[message.method]\<close> reads.\<close>

fun method_key :: "string option \<Rightarrow> string" where
  "method_key None = ''undefined''"
| "method_key (Some m) = m"

text \<open>\<^verbatim>\<open>sender.tab ? sender.tab.id : null\<close>\<close>

definition tabId_of :: "sender \<Rightarrow> jsval" where
  "tabId_of sd = (case sender_tab sd of Some t \<Rightarrow> JNum (tab_id t) | None \<Rightarrow> JNull)"

definition listener :: "registry \<Rightarrow> chan_message \<Rightarrow> sender \<Rightarrow>
    chan_effect list \<times> listener_return \<times> later" where
  "listener ms msg sd =
     (let m = method_key (cm_method msg) in
      case lookup_method ms m of
          None \<Rightarrow> ([BrowserLog msg], RetUndefined, Nothing)
        | Some Raising \<Rightarrow> ([BrowserLog msg], Thrown JTypeError, Nothing)
        | Some hv \<Rightarrow>
            (case (if truthy (cm_args msg) then cm_args msg else JArr []) of
                JArr xs \<Rightarrow>
                  (let as = xs @ [tabId_of sd] in
                   case hv of
                       Callable h \<Rightarrow>
                         (case h as of
                             Throws e \<Rightarrow> ([BrowserLog msg, Invoked m as], Thrown e, Nothing)
                           | ReturnsPromise (Fulfil v) \<Rightarrow>
                               ([BrowserLog msg, Invoked m as], RetTrue, ReplyLater v)
                           | ReturnsPromise (Reject e) \<Rightarrow>
                               ([BrowserLog msg, Invoked m as], RetTrue, RejectedLater e)
                           | ReturnsPromise Never \<Rightarrow>
                               ([BrowserLog msg, Invoked m as], RetTrue, NeverSettles)
                           | Returns v \<Rightarrow>
                               ([BrowserLog msg, Invoked m as, Reply v], RetFalse, Nothing))
                     | _ \<Rightarrow> ([BrowserLog msg], Thrown JTypeError, Nothing))
              | _ \<Rightarrow> ([BrowserLog msg], Thrown JTypeError, Nothing)))"

text \<open>
  \<^verbatim>\<open>Browser.rpc.call\<close>: the native send it makes. \<open>p\<close> is the Promise that the call creates
  and returns; its \<^verbatim>\<open>resolve\<close> is the third argument of the send, the response callback.
\<close>

datatype chan_send =
    TabsSendMessage jsval chan_message nat
  | RuntimeSendMessage chan_message nat

definition rpc_call :: "nat \<Rightarrow> jsval \<Rightarrow> string \<Rightarrow> jsval \<Rightarrow> chan_send" where
  "rpc_call p tabId name a =
     (let message = \<lparr>cm_method = Some name, cm_args = a\<rparr>
      in if truthy tabId then TabsSendMessage tabId message p else RuntimeSendMessage message p)"

text \<open>The response callback handed to the native API.\<close>

fun callback :: "chan_send \<Rightarrow> nat" where
  "callback (TabsSendMessage t m p) = p"
| "callback (RuntimeSendMessage m p) = p"

section \<open>Transport and scenarios\<close>

text \<open>
  The window transport hands every posted object to the receiver's listener as the
  \<^verbatim>\<open>data\<close> of a message event. \<open>deliver_all s es\<close> delivers the messages posted in \<open>es\<close>, in
  order, to the instance \<open>s\<close> and collects what \<open>s\<close> does.
\<close>

fun deliver_all :: "post_rpc \<Rightarrow> effect list \<Rightarrow> post_rpc \<times> effect list" where
  "deliver_all s [] = (s, [])"
| "deliver_all s (PostMessage d origin # es) =
     (case receiveMessage s \<lparr>ev_data = Some d\<rparr> of
        (s', out, c) \<Rightarrow> (case deliver_all s' es of (s'', out') \<Rightarrow> (s'', out @ out')))"
| "deliver_all s (e # es) = deliver_all s es"

text \<open>
  A round trip between two instances: \<open>caller\<close> calls, the request is delivered to
  \<open>callee\<close>, and what \<open>callee\<close> posts is delivered back to \<open>caller\<close>. The result is the
  Promise returned by the call, what the caller does on the way back, and the caller's
  final state.
\<close>

definition round_trip :: "post_rpc \<Rightarrow> post_rpc \<Rightarrow> string \<Rightarrow> jsval \<Rightarrow> int \<Rightarrow>
    nat \<times> effect list \<times> post_rpc" where
  "round_trip caller callee m a r =
     (case call caller m a r of
        (caller', p, request) \<Rightarrow>
          (case deliver_all callee request of
             (callee', answer) \<Rightarrow>
               (case deliver_all caller' answer of
                  (caller'', done) \<Rightarrow> (p, done, caller''))))"

text \<open>
  The loopback configuration, where the send and receive targets are the same window: what
  an instance posts in a call is delivered to the instance itself.
\<close>

definition call_loopback :: "post_rpc \<Rightarrow> string \<Rightarrow> jsval \<Rightarrow> int \<Rightarrow> nat \<times> post_rpc \<times> effect list" where
  "call_loopback s m a r =
     (case call s m a r of
        (s', p, request) \<Rightarrow> (case deliver_all s' request of (s'', out) \<Rightarrow> (p, s'', out)))"

text \<open>The handler applications recorded in a trace, on each binding.\<close>

fun applications :: "effect list \<Rightarrow> (string \<times> jsval list) list" where
  "applications [] = []"
| "applications (Applied m as # es) = (m, as) # applications es"
| "applications (e # es) = applications es"

fun invocations :: "chan_effect list \<Rightarrow> (string \<times> jsval list) list" where
  "invocations [] = []"
| "invocations (Invoked m as # es) = (m, as) # invocations es"
| "invocations (e # es) = invocations es"

fun posted :: "effect list \<Rightarrow> (string \<times> message) list list" where
  "posted [] = []"
| "posted (PostMessage d origin # es) = d # posted es"
| "posted (e # es) = posted es"

fun replies :: "chan_effect list \<Rightarrow> jsval list" where
  "replies [] = []"
| "replies (Reply v # es) = v # replies es"
| "replies (e # es) = replies es"

section \<open>The objects on the wire\<close>

text \<open>
  The native payloads as objects with keys, to compare what the two bindings send: a key is
  listed when the source's object literal (or assignment) creates it.
\<close>

datatype native = NVal jsval | NStr string | NNum int | NObj "(string \<times> native) list"

text \<open>A message of the window binding: its keys are the fields that are present.\<close>

definition native_of_message :: "message \<Rightarrow> native" where
  "native_of_message m =
     NObj ((case meth m of Some x \<Rightarrow> [(''method'', NStr x)] | None \<Rightarrow> [])
         @ (if args m = JUndefined then [] else [(''args'', NVal (args m))])
         @ (case callId m of Some k \<Rightarrow> [(''callId'', NNum k)] | None \<Rightarrow> [])
         @ (case frm m of Some k \<Rightarrow> [(''from'', NNum k)] | None \<Rightarrow> [])
         @ (if val m = JUndefined then [] else [(''value'', NVal (val m))]))"

text \<open>\<^verbatim>\<open>var temp = {}; temp[this._ns] = message\<close>\<close>

fun native_of_effect :: "effect \<Rightarrow> native option" where
  "native_of_effect (PostMessage d origin) =
     Some (NObj (map (\<lambda>(k, m). (k, native_of_message m)) d))"
| "native_of_effect e = None"

text \<open>\<^verbatim>\<open>{ method: name, args: args }\<close>, handed to \<^verbatim>\<open>sendMessage\<close> as it is.\<close>

definition native_of_chan_message :: "chan_message \<Rightarrow> native" where
  "native_of_chan_message m =
     NObj ((case cm_method m of Some x \<Rightarrow> [(''method'', NStr x)] | None \<Rightarrow> [])
         @ [(''args'', NVal (cm_args m))])"

fun native_of_send :: "chan_send \<Rightarrow> native" where
  "native_of_send (TabsSendMessage t m p) = native_of_chan_message m"
| "native_of_send (RuntimeSendMessage m p) = native_of_chan_message m"

text \<open>
  The wire format in the specification's words: a single key whose value is a request, an
  object with a method name, arguments and a numeric correlation id (the source's
  \<^verbatim>\<open>callId\<close>).
\<close>

fun spec_request :: "native \<Rightarrow> bool" where
  "spec_request (NObj fs) =
     ((case map_of fs ''method'' of Some (NStr x) \<Rightarrow> True | _ \<Rightarrow> False)
    \<and> (case map_of fs ''args'' of Some a \<Rightarrow> True | None \<Rightarrow> False)
    \<and> (case map_of fs ''callId'' of Some (NNum k) \<Rightarrow> True | _ \<Rightarrow> False))"
| "spec_request n = False"

fun spec_namespaced_request :: "native \<Rightarrow> bool" where
  "spec_namespaced_request (NObj [(k, e)]) = spec_request e"
| "spec_namespaced_request n = False"

section \<open>Example handlers\<close>

text \<open>The handlers of the specification's tests, as what they do when applied: \<open>echo\<close>
  returns its first argument at once, \<open>slow\<close> returns a Promise fulfilled with it,
  \<open>failing\<close> throws, \<open>rejecting\<close> returns a Promise that is rejected, and \<open>whoCalled\<close>
  returns its last argument. Each is registered as an arrow function of one parameter.\<close>

definition echo :: handler where
  "echo as = Returns (first_arg as)"

definition slow :: handler where
  "slow as = ReturnsPromise (Fulfil (first_arg as))"

definition failing :: handler where
  "failing as = Throws (JStr ''boom'')"


definition whoCalled :: handler where
  "whoCalled as = Returns (case rev as of [] \<Rightarrow> JUndefined | v # vs \<Rightarrow> v)"

text \<open>The registry of a new instance after one registration under an ordinary name.\<close>

definition registry_with :: "string \<Rightarrow> handler \<Rightarrow> registry" where
  "registry_with name h = new_registry\<lparr>own := [name \<mapsto> arrow_function 1 name h]\<rparr>"

section \<open>Reading and writing the registry\<close>

lemma body_arrow_function: "body (arrow_function n nm h) = h"
  by (simp add: arrow_function_def)

lemma lookup_own: "own ms name = Some f \<Longrightarrow> lookup_method ms name = Some (Callable (body f))"
  by (simp add: lookup_method_def)

lemma lookup_registry_with: "lookup_method (registry_with name h) name = Some (Callable h)"
  by (simp add: registry_with_def lookup_method_def arrow_function_def)

text \<open>On a registry that still has its original prototype, a registration under a name
  other than \<^verbatim>\<open>__proto__\<close> never throws, the name becomes an own property, and a read of it
  finds the function registered.\<close>

lemma assign_method_original:
  assumes "proto ms = None" and "name \<noteq> ''__proto__''"
  shows "assign_method ms name f = Inr (ms\<lparr>own := (own ms)(name \<mapsto> f)\<rparr>)"
    and "lookup_method (ms\<lparr>own := (own ms)(name \<mapsto> f)\<rparr>) name = Some (Callable (body f))"
proof -
  show "assign_method ms name f = Inr (ms\<lparr>own := (own ms)(name \<mapsto> f)\<rparr>)"
  proof (cases "own ms name")
    case (Some g)
    then show ?thesis by (simp add: assign_method_def)
  next
    case None
    with assms show ?thesis
      by (auto simp add: assign_method_def inherited_def object_prototype_def)
  qed
  show "lookup_method (ms\<lparr>own := (own ms)(name \<mapsto> f)\<rparr>) name = Some (Callable (body f))"
    by (simp add: lookup_method_def)
qed

text \<open>
  After a registration under \<^verbatim>\<open>__proto__\<close> the registry inherits from the function
  registered: a later registration under \<^verbatim>\<open>name\<close> is dropped, and the read of \<^verbatim>\<open>name\<close>
  finds the function's name, which cannot be applied; \<^verbatim>\<open>bind\<close> is found without any
  registration.
\<close>

lemma registration_after_proto:
  "assign_method new_registry ''__proto__'' (arrow_function 1 ''failing'' failing)
     = Inr (new_registry\<lparr>proto := Some (arrow_function 1 ''failing'' failing)\<rparr>)"
  "assign_method (new_registry\<lparr>proto := Some (arrow_function 1 ''failing'' failing)\<rparr>)
       ''name'' (arrow_function 1 ''echo'' echo)
     = Inr (new_registry\<lparr>proto := Some (arrow_function 1 ''failing'' failing)\<rparr>)"
  "lookup_method (new_registry\<lparr>proto := Some (arrow_function 1 ''failing'' failing)\<rparr>) ''name''
     = Some NotCallable"
  "lookup_method (new_registry\<lparr>proto := Some (arrow_function 1 ''failing'' failing)\<rparr>) ''bind''
     = Some (Callable (\<lambda>as. Throws JTypeError))"
  by (simp_all add: assign_method_def lookup_method_def inherited_def object_prototype_def
      new_registry_def arrow_function_def)

text \<open>The same on the channel binding: after a registration under \<^verbatim>\<open>__proto__\<close> a message
  for \<^verbatim>\<open>bind\<close> finds \<^verbatim>\<open>Function.prototype.bind\<close>, which throws when it is applied.\<close>

lemma listener_after_proto:
  "rpc_register \<lparr>rpc_methods = None, listeners = 0\<rparr> ''__proto__''
       (arrow_function 1 ''failing'' failing)
     = Inr \<lparr>rpc_methods = Some (new_registry\<lparr>proto := Some (arrow_function 1 ''failing'' failing)\<rparr>),
            listeners = 1\<rparr>"
  "listener (new_registry\<lparr>proto := Some (arrow_function 1 ''failing'' failing)\<rparr>)
       \<lparr>cm_method = Some ''bind'', cm_args = JArr []\<rparr>
       \<lparr>sender_tab = None, sender_url = ''popup.html''\<rparr>
     = ([BrowserLog \<lparr>cm_method = Some ''bind'', cm_args = JArr []\<rparr>, Invoked ''bind'' [JNull]],
        Thrown JTypeError, Nothing)"
  by (simp_all add: rpc_register_def listener_def Let_def assign_method_def lookup_method_def
      inherited_def object_prototype_def new_registry_def arrow_function_def tabId_of_def)

section \<open>The call registry and responses\<close>

text \<open>
  Claim C2. A response envelope (no method, a numeric call id, a sequence as value) whose
  call id has a pending call removes exactly that entry and fires exactly its continuation
  with the first element of the value; one whose call id has no pending call fires nothing
  and leaves the instance as it was. In both cases every other entry of the call registry
  is untouched.
\<close>

theorem response_dispatch:
  assumes "ev_data ev = Some d" and "map_of d (ns s) = Some data"
    and "meth data = None" and "callId data = Some k" and "val data = JArr vs"
  shows "(\<forall>c. calls s k = Some c \<longrightarrow>
            receiveMessage s ev =
              (s\<lparr>calls := (calls s)(k := None)\<rparr>, [Resolved c (first_arg vs)], Completed))
       \<and> (calls s k = None \<longrightarrow> receiveMessage s ev = (s, [], Completed))
       \<and> (\<forall>j. j \<noteq> k \<longrightarrow> calls (fst (receiveMessage s ev)) j = calls s j)"
  using assms
  by (cases "calls s k") (simp_all add: receiveMessage_def handle_response_def)

theorem response_dispatch_witness:
  "receiveMessage ((PostRPC ''n'' ''*'' 1)\<lparr>calls := [7 \<mapsto> 0, 8 \<mapsto> 1]\<rparr>)
      \<lparr>ev_data = Some [(''__PostRPC_n'',
          \<lparr>meth = None, args = JUndefined, callId = Some 8, frm = None, val = JArr [JBool False]\<rparr>)]\<rparr>
    = ((PostRPC ''n'' ''*'' 1)\<lparr>calls := [7 \<mapsto> 0]\<rparr>, [Resolved 1 (JBool False)], Completed)"
proof -
  let ?s = "(PostRPC ''n'' ''*'' 1)\<lparr>calls := [7 \<mapsto> 0, 8 \<mapsto> 1]\<rparr>"
  let ?data = "\<lparr>meth = None, args = JUndefined, callId = Some 8, frm = None, val = JArr [JBool False]\<rparr>"
  let ?d = "[(''__PostRPC_n'', ?data)]"
  have ns: "map_of ?d (ns ?s) = Some ?data" by (simp add: PostRPC_def)
  have c: "calls ?s 8 = Some 1" by simp
  have upd: "(calls ?s)(8 := None) = [7 \<mapsto> 0]" by (rule ext) simp
  from response_dispatch [of "\<lparr>ev_data = Some ?d\<rparr>" ?d ?s ?data 8 "[JBool False]"] ns c
  have "receiveMessage ?s \<lparr>ev_data = Some ?d\<rparr>
      = (?s\<lparr>calls := (calls ?s)(8 := None)\<rparr>, [Resolved 1 (first_arg [JBool False])], Completed)"
    by simp
  then show ?thesis by (simp add: upd)
qed

text \<open>Two outstanding calls resolve each with its own value, in whichever order the two
  responses arrive, and the registry ends the same.\<close>

lemma responses_any_order:
  assumes "k1 \<noteq> k2" and "calls s k1 = Some c1" and "calls s k2 = Some c2"
    and "meth r1 = None" and "callId r1 = Some k1" and "val r1 = JArr [v1]"
    and "meth r2 = None" and "callId r2 = Some k2" and "val r2 = JArr [v2]"
  shows "deliver_all s [PostMessage [(ns s, r1)] o1, PostMessage [(ns s, r2)] o2]
           = (s\<lparr>calls := (calls s)(k1 := None, k2 := None)\<rparr>, [Resolved c1 v1, Resolved c2 v2])"
    and "deliver_all s [PostMessage [(ns s, r2)] o2, PostMessage [(ns s, r1)] o1]
           = (s\<lparr>calls := (calls s)(k1 := None, k2 := None)\<rparr>, [Resolved c2 v2, Resolved c1 v1])"
  using assms by (simp_all add: receiveMessage_def handle_response_def fun_upd_twist)

section \<open>The channel listener\<close>

text \<open>
  Claim C4. On the channel binding, for a request dispatched to a registered handler: when
  the handler returns a Promise the listener returns \<^verbatim>\<open>true\<close> without having replied, and the
  reply is sent later, when the Promise is fulfilled (never, when it is rejected or does
  not settle); when the handler returns a value at once the listener replies with that
  value before it returns, and returns \<^verbatim>\<open>false\<close>.
\<close>

theorem listener_sentinel:
  assumes "lookup_method ms (method_key (cm_method msg)) = Some (Callable h)"
    and "(if truthy (cm_args msg) then cm_args msg else JArr []) = JArr xs"
  shows "(\<forall>st. h (xs @ [tabId_of sd]) = ReturnsPromise st \<longrightarrow>
            fst (snd (listener ms msg sd)) = RetTrue
          \<and> replies (fst (listener ms msg sd)) = []
          \<and> snd (snd (listener ms msg sd)) =
              (case st of Fulfil v \<Rightarrow> ReplyLater v | Reject e \<Rightarrow> RejectedLater e
                        | Never \<Rightarrow> NeverSettles))
       \<and> (\<forall>v. h (xs @ [tabId_of sd]) = Returns v \<longrightarrow>
            fst (snd (listener ms msg sd)) = RetFalse
          \<and> replies (fst (listener ms msg sd)) = [v]
          \<and> snd (snd (listener ms msg sd)) = Nothing)"
proof (intro conjI allI impI)
  fix st assume p: "h (xs @ [tabId_of sd]) = ReturnsPromise st"
  have l: "listener ms msg sd =
      ([BrowserLog msg, Invoked (method_key (cm_method msg)) (xs @ [tabId_of sd])], RetTrue,
       (case st of Fulfil v \<Rightarrow> ReplyLater v | Reject e \<Rightarrow> RejectedLater e | Never \<Rightarrow> NeverSettles))"
    using assms p by (cases st) (simp_all add: listener_def Let_def)
  show "fst (snd (listener ms msg sd)) = RetTrue" by (simp add: l)
  show "replies (fst (listener ms msg sd)) = []" by (simp add: l)
  show "snd (snd (listener ms msg sd)) =
      (case st of Fulfil v \<Rightarrow> ReplyLater v | Reject e \<Rightarrow> RejectedLater e | Never \<Rightarrow> NeverSettles)"
    by (simp add: l)
next
  fix v assume r: "h (xs @ [tabId_of sd]) = Returns v"
  have l: "listener ms msg sd =
      ([BrowserLog msg, Invoked (method_key (cm_method msg)) (xs @ [tabId_of sd]), Reply v],
       RetFalse, Nothing)"
    using assms r by (simp add: listener_def Let_def)
  show "fst (snd (listener ms msg sd)) = RetFalse" by (simp add: l)
  show "replies (fst (listener ms msg sd)) = [v]" by (simp add: l)
  show "snd (snd (listener ms msg sd)) = Nothing" by (simp add: l)
qed

theorem listener_sentinel_witness:
  "fst (snd (listener (registry_with ''slow'' slow) \<lparr>cm_method = Some ''slow'', cm_args = JArr [JNum 1]\<rparr>
       \<lparr>sender_tab = Some \<lparr>tab_id = 3\<rparr>, sender_url = ''page.html''\<rparr>)) = RetTrue
   \<and> replies (fst (listener (registry_with ''slow'' slow) \<lparr>cm_method = Some ''slow'', cm_args = JArr [JNum 1]\<rparr>
       \<lparr>sender_tab = Some \<lparr>tab_id = 3\<rparr>, sender_url = ''page.html''\<rparr>)) = []
   \<and> snd (snd (listener (registry_with ''slow'' slow) \<lparr>cm_method = Some ''slow'', cm_args = JArr [JNum 1]\<rparr>
       \<lparr>sender_tab = Some \<lparr>tab_id = 3\<rparr>, sender_url = ''page.html''\<rparr>)) = ReplyLater (JNum 1)
   \<and> fst (snd (listener (registry_with ''echo'' echo) \<lparr>cm_method = Some ''echo'', cm_args = JArr [JNull]\<rparr>
       \<lparr>sender_tab = None, sender_url = ''popup.html''\<rparr>)) = RetFalse
   \<and> replies (fst (listener (registry_with ''echo'' echo) \<lparr>cm_method = Some ''echo'', cm_args = JArr [JNull]\<rparr>
       \<lparr>sender_tab = None, sender_url = ''popup.html''\<rparr>)) = [JNull]"
proof -
  let ?m1 = "\<lparr>cm_method = Some ''slow'', cm_args = JArr [JNum 1]\<rparr>"
  let ?s1 = "\<lparr>sender_tab = Some \<lparr>tab_id = 3\<rparr>, sender_url = ''page.html''\<rparr>"
  let ?m2 = "\<lparr>cm_method = Some ''echo'', cm_args = JArr [JNull]\<rparr>"
  let ?s2 = "\<lparr>sender_tab = None, sender_url = ''popup.html''\<rparr>"
  have a1: "lookup_method (registry_with ''slow'' slow) (method_key (cm_method ?m1)) = Some (Callable slow)"
    by (simp add: lookup_registry_with)
  have a2: "lookup_method (registry_with ''echo'' echo) (method_key (cm_method ?m2)) = Some (Callable echo)"
    by (simp add: lookup_registry_with)
  have b1: "(if truthy (cm_args ?m1) then cm_args ?m1 else JArr []) = JArr [JNum 1]" by simp
  have b2: "(if truthy (cm_args ?m2) then cm_args ?m2 else JArr []) = JArr [JNull]" by simp
  have h1: "slow ([JNum 1] @ [tabId_of ?s1]) = ReturnsPromise (Fulfil (JNum 1))"
    by (simp add: slow_def)
  have h2: "echo ([JNull] @ [tabId_of ?s2]) = Returns JNull"
    by (simp add: echo_def)
  from listener_sentinel [OF a1 b1, of ?s1] h1 listener_sentinel [OF a2 b2, of ?s2] h2
  show ?thesis by simp
qed

section \<open>Arguments of the handler\<close>

text \<open>What the two dispatchers apply a registered handler to, and what they make of the
  result.\<close>

lemma listener_applies:
  assumes "lookup_method ms (method_key (cm_method msg)) = Some (Callable h)"
    and "(if truthy (cm_args msg) then cm_args msg else JArr []) = JArr xs"
  shows "listener ms msg sd =
     (case h (xs @ [tabId_of sd]) of
          Returns v \<Rightarrow>
            ([BrowserLog msg, Invoked (method_key (cm_method msg)) (xs @ [tabId_of sd]), Reply v],
             RetFalse, Nothing)
        | ReturnsPromise st \<Rightarrow>
            ([BrowserLog msg, Invoked (method_key (cm_method msg)) (xs @ [tabId_of sd])],
             RetTrue,
             (case st of Fulfil v \<Rightarrow> ReplyLater v | Reject e \<Rightarrow> RejectedLater e
                       | Never \<Rightarrow> NeverSettles))
        | Throws e \<Rightarrow>
            ([BrowserLog msg, Invoked (method_key (cm_method msg)) (xs @ [tabId_of sd])],
             Thrown e, Nothing))"
proof (cases "h (xs @ [tabId_of sd])")
  case (Returns v)
  with assms show ?thesis by (simp add: listener_def Let_def)
next
  case (ReturnsPromise st)
  with assms show ?thesis by (cases st) (simp_all add: listener_def Let_def)
next
  case (Throws e)
  with assms show ?thesis by (simp add: listener_def Let_def)
qed

lemma listener_invocations:
  assumes "lookup_method ms (method_key (cm_method msg)) = Some (Callable h)"
    and "(if truthy (cm_args msg) then cm_args msg else JArr []) = JArr xs"
  shows "invocations (fst (listener ms msg sd)) = [(method_key (cm_method msg), xs @ [tabId_of sd])]"
proof (cases "h (xs @ [tabId_of sd])")
  case (Returns v)
  with assms show ?thesis by (simp add: listener_def Let_def)
next
  case (ReturnsPromise st)
  with assms show ?thesis by (cases st) (simp_all add: listener_def Let_def)
next
  case (Throws e)
  with assms show ?thesis by (simp add: listener_def Let_def)
qed

lemma request_applies:
  assumes "ev_data ev = Some d" and "map_of d (ns s) = Some data"
    and "meth data = Some m" and "m \<noteq> []" and "frm data \<noteq> Some (rpc_id s)"
    and "lookup_method (methods s) m = Some (Callable h)"
    and "apply_args (args data) = Some as"
  shows "receiveMessage s ev =
     (case h as of
          Returns v \<Rightarrow>
            (s, [Applied m as, PostMessage [(ns s, \<lparr>meth = None, args = JUndefined,
                   callId = callId data, frm = None, val = JArr [v]\<rparr>)] (targetOrigin s)],
             Completed)
        | ReturnsPromise st \<Rightarrow>
            (case st of
                 Fulfil v \<Rightarrow>
                   (s, [Applied m as, PostMessage [(ns s, \<lparr>meth = None, args = JUndefined,
                          callId = callId data, frm = None, val = JArr [v]\<rparr>)] (targetOrigin s)],
                    Completed)
               | Reject e \<Rightarrow> (s, [Applied m as], Failed e)
               | Never \<Rightarrow> (s, [Applied m as], Suspended))
        | Throws e \<Rightarrow> (s, [Applied m as], Failed e))"
proof (cases "h as")
  case (Returns v)
  with assms show ?thesis by (simp add: receiveMessage_def handle_request_def sendMessage_def)
next
  case (ReturnsPromise st)
  with assms show ?thesis
    by (cases st) (simp_all add: receiveMessage_def handle_request_def sendMessage_def)
next
  case (Throws e)
  with assms show ?thesis by (simp add: receiveMessage_def handle_request_def)
qed

lemma request_applications:
  assumes "ev_data ev = Some d" and "map_of d (ns s) = Some data"
    and "meth data = Some m" and "m \<noteq> []" and "frm data \<noteq> Some (rpc_id s)"
    and "lookup_method (methods s) m = Some (Callable h)"
    and "apply_args (args data) = Some as"
  shows "applications (fst (snd (receiveMessage s ev))) = [(m, as)]"
proof (cases "h as")
  case (Returns v)
  with assms show ?thesis by (simp add: receiveMessage_def handle_request_def sendMessage_def)
next
  case (ReturnsPromise st)
  with assms show ?thesis
    by (cases st) (simp_all add: receiveMessage_def handle_request_def sendMessage_def)
next
  case (Throws e)
  with assms show ?thesis by (simp add: receiveMessage_def handle_request_def)
qed

text \<open>
  Claim C5, as stated, at two different peers that are in no tab, the popup and the options
  page: the final argument the handler receives is \<^verbatim>\<open>null\<close> for both, and \<open>whoCalled\<close>
  replies \<^verbatim>\<open>null\<close> to both.
\<close>

theorem sender_augmentation_counterexample:
  "\<lparr>sender_tab = None, sender_url = ''popup.html''\<rparr>
     \<noteq> \<lparr>sender_tab = None, sender_url = ''options.html''\<rparr>
   \<and> listener (registry_with ''whoCalled'' whoCalled)
        \<lparr>cm_method = Some ''whoCalled'', cm_args = JArr []\<rparr>
        \<lparr>sender_tab = None, sender_url = ''popup.html''\<rparr>
     = ([BrowserLog \<lparr>cm_method = Some ''whoCalled'', cm_args = JArr []\<rparr>,
         Invoked ''whoCalled'' [JNull], Reply JNull], RetFalse, Nothing)
   \<and> listener (registry_with ''whoCalled'' whoCalled)
        \<lparr>cm_method = Some ''whoCalled'', cm_args = JArr []\<rparr>
        \<lparr>sender_tab = None, sender_url = ''options.html''\<rparr>
     = ([BrowserLog \<lparr>cm_method = Some ''whoCalled'', cm_args = JArr []\<rparr>,
         Invoked ''whoCalled'' [JNull], Reply JNull], RetFalse, Nothing)"
  by (simp add: listener_def Let_def lookup_registry_with tabId_of_def whoCalled_def)

text \<open>
  Claim C5, amended. On the channel binding a request dispatched to a registered handler
  applies the handler once, to the request's arguments followed by exactly one more, the
  sender's tab id, or \<^verbatim>\<open>null\<close> when the sender is in no tab; everything the listener does
  and returns is determined by what the handler does on that argument list. Two senders
  in tabs with different ids give the same handler different final arguments. The window
  binding applies the handler to the request's arguments as they are, and what it does is
  determined by what the handler does on them.
\<close>

theorem sender_augmentation:
  "(lookup_method ms (method_key (cm_method msg)) = Some (Callable h)
      \<and> (if truthy (cm_args msg) then cm_args msg else JArr []) = JArr xs \<longrightarrow>
        listener ms msg sd =
          (case h (xs @ [tabId_of sd]) of
               Returns v \<Rightarrow>
                 ([BrowserLog msg, Invoked (method_key (cm_method msg)) (xs @ [tabId_of sd]),
                   Reply v], RetFalse, Nothing)
             | ReturnsPromise st \<Rightarrow>
                 ([BrowserLog msg, Invoked (method_key (cm_method msg)) (xs @ [tabId_of sd])],
                  RetTrue,
                  (case st of Fulfil v \<Rightarrow> ReplyLater v | Reject e \<Rightarrow> RejectedLater e
                            | Never \<Rightarrow> NeverSettles))
             | Throws e \<Rightarrow>
                 ([BrowserLog msg, Invoked (method_key (cm_method msg)) (xs @ [tabId_of sd])],
                  Thrown e, Nothing))
      \<and> invocations (fst (listener ms msg sd))
          = [(method_key (cm_method msg), xs @ [tabId_of sd])]
      \<and> tabId_of sd = (case sender_tab sd of Some t \<Rightarrow> JNum (tab_id t) | None \<Rightarrow> JNull)
      \<and> (sender_tab sd = Some (t :: tab) \<and> sender_tab sd' = Some (t' :: tab) \<and> tab_id t \<noteq> tab_id t' \<longrightarrow>
            last (snd (hd (invocations (fst (listener ms msg sd))))) = JNum (tab_id t)
          \<and> last (snd (hd (invocations (fst (listener ms msg sd'))))) = JNum (tab_id t')
          \<and> last (snd (hd (invocations (fst (listener ms msg sd)))))
              \<noteq> last (snd (hd (invocations (fst (listener ms msg sd')))))))
   \<and> (ev_data ev = Some d \<and> map_of d (ns s) = Some data \<and> meth data = Some m \<and> m \<noteq> []
      \<and> frm data \<noteq> Some (rpc_id s) \<and> lookup_method (methods s) m = Some (Callable h')
      \<and> apply_args (args data) = Some as \<longrightarrow>
        receiveMessage s ev =
          (case h' as of
               Returns v \<Rightarrow>
                 (s, [Applied m as, PostMessage [(ns s, \<lparr>meth = None, args = JUndefined,
                        callId = callId data, frm = None, val = JArr [v]\<rparr>)] (targetOrigin s)],
                  Completed)
             | ReturnsPromise st \<Rightarrow>
                 (case st of
                      Fulfil v \<Rightarrow>
                        (s, [Applied m as, PostMessage [(ns s, \<lparr>meth = None, args = JUndefined,
                               callId = callId data, frm = None, val = JArr [v]\<rparr>)]
                               (targetOrigin s)],
                         Completed)
                    | Reject e \<Rightarrow> (s, [Applied m as], Failed e)
                    | Never \<Rightarrow> (s, [Applied m as], Suspended))
             | Throws e \<Rightarrow> (s, [Applied m as], Failed e))
      \<and> applications (fst (snd (receiveMessage s ev))) = [(m, as)])"
proof (intro conjI impI)
  assume a: "lookup_method ms (method_key (cm_method msg)) = Some (Callable h)
      \<and> (if truthy (cm_args msg) then cm_args msg else JArr []) = JArr xs"
  from a show "listener ms msg sd =
          (case h (xs @ [tabId_of sd]) of
               Returns v \<Rightarrow>
                 ([BrowserLog msg, Invoked (method_key (cm_method msg)) (xs @ [tabId_of sd]),
                   Reply v], RetFalse, Nothing)
             | ReturnsPromise st \<Rightarrow>
                 ([BrowserLog msg, Invoked (method_key (cm_method msg)) (xs @ [tabId_of sd])],
                  RetTrue,
                  (case st of Fulfil v \<Rightarrow> ReplyLater v | Reject e \<Rightarrow> RejectedLater e
                            | Never \<Rightarrow> NeverSettles))
             | Throws e \<Rightarrow>
                 ([BrowserLog msg, Invoked (method_key (cm_method msg)) (xs @ [tabId_of sd])],
                  Thrown e, Nothing))"
    by (elim conjE) (rule listener_applies)
  from a show "invocations (fst (listener ms msg sd))
      = [(method_key (cm_method msg), xs @ [tabId_of sd])]"
    by (simp add: listener_invocations)
  show "tabId_of sd = (case sender_tab sd of Some t \<Rightarrow> JNum (tab_id t) | None \<Rightarrow> JNull)"
    by (simp add: tabId_of_def)
  assume b: "sender_tab sd = Some t \<and> sender_tab sd' = Some t' \<and> tab_id t \<noteq> tab_id t'"
  have i: "invocations (fst (listener ms msg sd)) = [(method_key (cm_method msg), xs @ [tabId_of sd])]"
    and i': "invocations (fst (listener ms msg sd')) = [(method_key (cm_method msg), xs @ [tabId_of sd'])]"
    using a by (simp_all add: listener_invocations)
  show "last (snd (hd (invocations (fst (listener ms msg sd))))) = JNum (tab_id t)"
    using b by (simp add: i tabId_of_def)
  show "last (snd (hd (invocations (fst (listener ms msg sd'))))) = JNum (tab_id t')"
    using b by (simp add: i' tabId_of_def)
  show "last (snd (hd (invocations (fst (listener ms msg sd)))))
      \<noteq> last (snd (hd (invocations (fst (listener ms msg sd')))))"
    using b by (simp add: i i' tabId_of_def)
next
  assume c: "ev_data ev = Some d \<and> map_of d (ns s) = Some data \<and> meth data = Some m \<and> m \<noteq> []
      \<and> frm data \<noteq> Some (rpc_id s) \<and> lookup_method (methods s) m = Some (Callable h')
      \<and> apply_args (args data) = Some as"
  from c show "receiveMessage s ev =
          (case h' as of
               Returns v \<Rightarrow>
                 (s, [Applied m as, PostMessage [(ns s, \<lparr>meth = None, args = JUndefined,
                        callId = callId data, frm = None, val = JArr [v]\<rparr>)] (targetOrigin s)],
                  Completed)
             | ReturnsPromise st \<Rightarrow>
                 (case st of
                      Fulfil v \<Rightarrow>
                        (s, [Applied m as, PostMessage [(ns s, \<lparr>meth = None, args = JUndefined,
                               callId = callId data, frm = None, val = JArr [v]\<rparr>)]
                               (targetOrigin s)],
                         Completed)
                    | Reject e \<Rightarrow> (s, [Applied m as], Failed e)
                    | Never \<Rightarrow> (s, [Applied m as], Suspended))
             | Throws e \<Rightarrow> (s, [Applied m as], Failed e))"
    by (elim conjE) (rule request_applies)
  from c show "applications (fst (snd (receiveMessage s ev))) = [(m, as)]"
    by (simp add: request_applications)
qed

theorem sender_augmentation_witness:
  "listener (registry_with ''whoCalled'' whoCalled)
       \<lparr>cm_method = Some ''whoCalled'', cm_args = JArr [JStr ''x'']\<rparr>
       \<lparr>sender_tab = Some \<lparr>tab_id = 3\<rparr>, sender_url = ''page.html''\<rparr>
     = ([BrowserLog \<lparr>cm_method = Some ''whoCalled'', cm_args = JArr [JStr ''x'']\<rparr>,
         Invoked ''whoCalled'' [JStr ''x'', JNum 3], Reply (JNum 3)], RetFalse, Nothing)
   \<and> last (snd (hd (invocations (fst (listener (registry_with ''whoCalled'' whoCalled)
       \<lparr>cm_method = Some ''whoCalled'', cm_args = JArr [JStr ''x'']\<rparr>
       \<lparr>sender_tab = Some \<lparr>tab_id = 3\<rparr>, sender_url = ''page.html''\<rparr>)))))
     \<noteq> last (snd (hd (invocations (fst (listener (registry_with ''whoCalled'' whoCalled)
       \<lparr>cm_method = Some ''whoCalled'', cm_args = JArr [JStr ''x'']\<rparr>
       \<lparr>sender_tab = Some \<lparr>tab_id = 4\<rparr>, sender_url = ''page.html''\<rparr>)))))
   \<and> receiveMessage ((PostRPC ''n'' ''*'' 2)\<lparr>methods := registry_with ''whoCalled'' whoCalled\<rparr>)
       \<lparr>ev_data = Some [(''__PostRPC_n'', \<lparr>meth = Some ''whoCalled'', args = JArr [JStr ''x''],
            callId = Some 7, frm = Some 1, val = JUndefined\<rparr>)]\<rparr>
     = ((PostRPC ''n'' ''*'' 2)\<lparr>methods := registry_with ''whoCalled'' whoCalled\<rparr>,
        [Applied ''whoCalled'' [JStr ''x''],
         PostMessage [(''__PostRPC_n'', \<lparr>meth = None, args = JUndefined, callId = Some 7,
            frm = None, val = JArr [JStr ''x'']\<rparr>)] ''*''],
        Completed)"
proof -
  let ?ms = "registry_with ''whoCalled'' whoCalled"
  let ?msg = "\<lparr>cm_method = Some ''whoCalled'', cm_args = JArr [JStr ''x'']\<rparr>"
  let ?t = "\<lparr>tab_id = 3\<rparr>"
  let ?t' = "\<lparr>tab_id = 4\<rparr>"
  let ?sd = "\<lparr>sender_tab = Some ?t, sender_url = ''page.html''\<rparr>"
  let ?sd' = "\<lparr>sender_tab = Some ?t', sender_url = ''page.html''\<rparr>"
  let ?s = "(PostRPC ''n'' ''*'' 2)\<lparr>methods := registry_with ''whoCalled'' whoCalled\<rparr>"
  let ?data = "\<lparr>meth = Some ''whoCalled'', args = JArr [JStr ''x''],
            callId = Some 7, frm = Some 1, val = JUndefined\<rparr>"
  let ?d = "[(''__PostRPC_n'', ?data)]"
  have a: "lookup_method ?ms (method_key (cm_method ?msg)) = Some (Callable whoCalled)"
    by (simp add: lookup_registry_with)
  have b: "(if truthy (cm_args ?msg) then cm_args ?msg else JArr []) = JArr [JStr ''x'']"
    by simp
  have c: "map_of ?d (ns ?s) = Some ?data" "ns ?s = ''__PostRPC_n''" "targetOrigin ?s = ''*''"
    by (simp_all add: PostRPC_def)
  have d: "lookup_method (methods ?s) ''whoCalled'' = Some (Callable whoCalled)"
    by (simp add: lookup_registry_with)
  have e: "frm ?data \<noteq> Some (rpc_id ?s)" by (simp add: PostRPC_def)
  have f: "apply_args (args ?data) = Some [JStr ''x'']" by simp
  have g: "tab_id ?t \<noteq> tab_id ?t'" by simp
  have h: "whoCalled ([JStr ''x''] @ [tabId_of ?sd]) = Returns (JNum 3)"
    "whoCalled [JStr ''x''] = Returns (JStr ''x'')" "tabId_of ?sd = JNum 3"
    by (simp_all add: whoCalled_def tabId_of_def)
  note w = sender_augmentation [of ?ms ?msg whoCalled "[JStr ''x'']" ?sd ?t ?sd' ?t'
      "\<lparr>ev_data = Some ?d\<rparr>" ?d ?s ?data "''whoCalled''" whoCalled "[JStr ''x'']"]
  have 1: "listener ?ms ?msg ?sd
     = ([BrowserLog ?msg, Invoked ''whoCalled'' [JStr ''x'', JNum 3], Reply (JNum 3)],
        RetFalse, Nothing)"
    using w a b h by simp
  have 2: "last (snd (hd (invocations (fst (listener ?ms ?msg ?sd)))))
     \<noteq> last (snd (hd (invocations (fst (listener ?ms ?msg ?sd')))))"
    using w a b g h by simp
  have 3: "receiveMessage ?s \<lparr>ev_data = Some ?d\<rparr>
     = (?s, [Applied ''whoCalled'' [JStr ''x''],
         PostMessage [(''__PostRPC_n'', \<lparr>meth = None, args = JUndefined, callId = Some 7,
            frm = None, val = JArr [JStr ''x'']\<rparr>)] ''*''], Completed)"
    using w c d e f h by simp
  show ?thesis using 1 2 3 by blast
qed

section \<open>Failing handlers\<close>

lemma call_eq:
  "call s m a r =
     (s\<lparr>calls := (calls s)(r \<mapsto> promises s), promises := Suc (promises s)\<rparr>, promises s,
      [PostMessage [(ns s, \<lparr>meth = Some m, args = (if truthy a then a else JArr []),
            callId = Some r, frm = Some (rpc_id s), val = JUndefined\<rparr>)] (targetOrigin s)])"
  by (simp add: call_def Let_def sendMessage_def)




section \<open>Missing arguments\<close>

text \<open>
  Claim C10. On the window binding a call whose arguments are omitted or falsy posts a
  request whose \<open>args\<close> is the empty array. On the channel binding a request whose
  arguments are absent (or falsy) is dispatched with the empty array: the handler is
  invoked with the sender's identifier as its only argument, and an immediate result is
  replied as usual.
\<close>

theorem args_default:
  "(\<not> truthy a \<longrightarrow>
      posted (snd (snd (call s m a r))) =
        [[(ns s, \<lparr>meth = Some m, args = JArr [], callId = Some r, frm = Some (rpc_id s),
                  val = JUndefined\<rparr>)]])
   \<and> (\<not> truthy (cm_args msg)
      \<and> lookup_method ms (method_key (cm_method msg)) = Some (Callable h) \<longrightarrow>
        invocations (fst (listener ms msg sd)) = [(method_key (cm_method msg), [tabId_of sd])]
      \<and> (\<forall>v. h [tabId_of sd] = Returns v \<longrightarrow>
            listener ms msg sd =
              ([BrowserLog msg, Invoked (method_key (cm_method msg)) [tabId_of sd], Reply v],
               RetFalse, Nothing)))"
proof (intro conjI impI allI)
  assume "\<not> truthy a"
  then show "posted (snd (snd (call s m a r))) =
        [[(ns s, \<lparr>meth = Some m, args = JArr [], callId = Some r, frm = Some (rpc_id s),
                  val = JUndefined\<rparr>)]]"
    by (simp add: call_def Let_def sendMessage_def)
next
  assume a: "\<not> truthy (cm_args msg)
      \<and> lookup_method ms (method_key (cm_method msg)) = Some (Callable h)"
  show "invocations (fst (listener ms msg sd)) = [(method_key (cm_method msg), [tabId_of sd])]"
  proof (cases "h [tabId_of sd]")
    case (Returns v)
    with a show ?thesis by (simp add: listener_def Let_def)
  next
    case (ReturnsPromise st)
    with a show ?thesis by (cases st) (simp_all add: listener_def Let_def)
  next
    case (Throws e)
    with a show ?thesis by (simp add: listener_def Let_def)
  qed
  fix v assume "h [tabId_of sd] = Returns v"
  with a show "listener ms msg sd =
              ([BrowserLog msg, Invoked (method_key (cm_method msg)) [tabId_of sd], Reply v],
               RetFalse, Nothing)"
    by (simp add: listener_def Let_def)
qed

theorem args_default_witness:
  "posted (snd (snd (call (PostRPC ''n'' ''*'' 1) ''echo'' JUndefined 7))) =
        [[(''__PostRPC_n'', \<lparr>meth = Some ''echo'', args = JArr [], callId = Some 7, frm = Some 1,
                  val = JUndefined\<rparr>)]]
   \<and> listener (registry_with ''whoCalled'' whoCalled) \<lparr>cm_method = Some ''whoCalled'', cm_args = JUndefined\<rparr>
        \<lparr>sender_tab = Some \<lparr>tab_id = 5\<rparr>, sender_url = ''page.html''\<rparr>
     = ([BrowserLog \<lparr>cm_method = Some ''whoCalled'', cm_args = JUndefined\<rparr>,
         Invoked ''whoCalled'' [JNum 5], Reply (JNum 5)], RetFalse, Nothing)"
proof -
  let ?msg = "\<lparr>cm_method = Some ''whoCalled'', cm_args = JUndefined\<rparr>"
  let ?sd = "\<lparr>sender_tab = Some \<lparr>tab_id = 5\<rparr>, sender_url = ''page.html''\<rparr>"
  have a: "\<not> truthy JUndefined" "\<not> truthy (cm_args ?msg)" by simp_all
  have b: "lookup_method (registry_with ''whoCalled'' whoCalled) (method_key (cm_method ?msg)) = Some (Callable whoCalled)"
    by (simp add: lookup_registry_with)
  have c: "whoCalled [tabId_of ?sd] = Returns (JNum 5)" by (simp add: whoCalled_def tabId_of_def)
  have d: "ns (PostRPC ''n'' ''*'' 1) = ''__PostRPC_n''" "rpc_id (PostRPC ''n'' ''*'' 1) = 1"
    by (simp_all add: PostRPC_def)
  from args_default [of JUndefined "PostRPC ''n'' ''*'' 1" "''echo''" 7 ?msg
      "(registry_with ''whoCalled'' whoCalled)" whoCalled ?sd] a b c d
  show ?thesis by (simp add: tabId_of_def)
qed

section \<open>The round trip\<close>

lemma request_answered:
  assumes "map_of d (ns s) = Some data" and "meth data = Some m" and "m \<noteq> []"
    and "frm data \<noteq> Some (rpc_id s)" and "lookup_method (methods s) m = Some (Callable h)"
    and "apply_args (args data) = Some as"
    and "h as = Returns v \<or> h as = ReturnsPromise (Fulfil v)"
  shows "receiveMessage s \<lparr>ev_data = Some d\<rparr> =
     (s, [Applied m as, PostMessage [(ns s, \<lparr>meth = None, args = JUndefined,
            callId = callId data, frm = None, val = JArr [v]\<rparr>)] (targetOrigin s)], Completed)"
  using assms by (auto simp add: receiveMessage_def handle_request_def sendMessage_def)

text \<open>The round trip with a callee in whose registry the read of \<open>m\<close> finds \<open>h\<close>.\<close>

lemma round_trip_found:
  assumes "ns caller = ns callee" and "rpc_id caller \<noteq> rpc_id callee" and "m \<noteq> []"
    and "lookup_method (methods callee) m = Some (Callable h)"
    and "h as = Returns v \<or> h as = ReturnsPromise (Fulfil v)"
  shows "round_trip caller callee m (JArr as) r =
     (promises caller, [Resolved (promises caller) v],
      caller\<lparr>calls := (calls caller)(r := None), promises := Suc (promises caller)\<rparr>)"
proof -
  let ?data = "\<lparr>meth = Some m, args = JArr as, callId = Some r, frm = Some (rpc_id caller),
      val = JUndefined\<rparr>"
  let ?caller' = "caller\<lparr>calls := (calls caller)(r \<mapsto> promises caller),
      promises := Suc (promises caller)\<rparr>"
  have c: "call caller m (JArr as) r =
      (?caller', promises caller, [PostMessage [(ns caller, ?data)] (targetOrigin caller)])"
    by (simp add: call_eq)
  have q: "receiveMessage callee \<lparr>ev_data = Some [(ns callee, ?data)]\<rparr> =
      (callee, [Applied m as, PostMessage [(ns callee, \<lparr>meth = None, args = JUndefined,
            callId = callId ?data, frm = None, val = JArr [v]\<rparr>)] (targetOrigin callee)],
       Completed)"
    using assms by (intro request_answered) simp_all
  have a: "receiveMessage ?caller' \<lparr>ev_data = Some [(ns callee, \<lparr>meth = None, args = JUndefined,
            callId = Some r, frm = None, val = JArr [v]\<rparr>)]\<rparr> =
      (caller\<lparr>calls := (calls caller)(r := None), promises := Suc (promises caller)\<rparr>,
       [Resolved (promises caller) v], Completed)"
    using assms(1) by (simp add: receiveMessage_def handle_response_def)
  show ?thesis
    using assms(1) by (simp add: round_trip_def c q a)
qed

lemma register_original:
  assumes "proto (methods s) = None" and "m \<noteq> ''__proto__''"
  shows "register s m f = Inr (s\<lparr>methods := (methods s)\<lparr>own := (own (methods s))(m \<mapsto> f)\<rparr>\<rparr>)"
  using assms by (simp add: register_def assign_method_original)

lemma register_new:
  "register (PostRPC name origin i) ''echo'' (arrow_function 1 ''echo'' echo)
     = Inr ((PostRPC name origin i)\<lparr>methods := registry_with ''echo'' echo\<rparr>)"
proof -
  have "proto (methods (PostRPC name origin i)) = None" "''echo'' \<noteq> ''__proto__''"
    by (simp_all add: PostRPC_def new_registry_def)
  then have "register (PostRPC name origin i) ''echo'' (arrow_function 1 ''echo'' echo)
     = Inr ((PostRPC name origin i)\<lparr>methods := (methods (PostRPC name origin i))
          \<lparr>own := (own (methods (PostRPC name origin i)))(''echo'' \<mapsto> arrow_function 1 ''echo'' echo)\<rparr>\<rparr>)"
    by (rule register_original)
  then show ?thesis
    by (simp add: PostRPC_def new_registry_def registry_with_def)
qed

text \<open>
  A callee on which \<open>failing\<close> was registered under \<^verbatim>\<open>__proto__\<close> and then \<open>echo\<close> under
  \<^verbatim>\<open>name\<close>: the second registration was dropped, the request for \<^verbatim>\<open>name\<close> finds a string
  where the handler should be, and the caller's call stays pending.
\<close>

lemma round_trip_after_proto:
  "register (PostRPC ''n'' ''*'' 2) ''__proto__'' (arrow_function 1 ''failing'' failing)
     = Inr ((PostRPC ''n'' ''*'' 2)
          \<lparr>methods := new_registry\<lparr>proto := Some (arrow_function 1 ''failing'' failing)\<rparr>\<rparr>)"
  "register ((PostRPC ''n'' ''*'' 2)
          \<lparr>methods := new_registry\<lparr>proto := Some (arrow_function 1 ''failing'' failing)\<rparr>\<rparr>)
       ''name'' (arrow_function 1 ''echo'' echo)
     = Inr ((PostRPC ''n'' ''*'' 2)
          \<lparr>methods := new_registry\<lparr>proto := Some (arrow_function 1 ''failing'' failing)\<rparr>\<rparr>)"
  "round_trip (PostRPC ''n'' ''*'' 1)
       ((PostRPC ''n'' ''*'' 2)
          \<lparr>methods := new_registry\<lparr>proto := Some (arrow_function 1 ''failing'' failing)\<rparr>\<rparr>)
       ''name'' (JArr [JNum 42]) 7
     = (0, [], (PostRPC ''n'' ''*'' 1)\<lparr>calls := [7 \<mapsto> 0], promises := 1\<rparr>)"
  by (simp_all add: register_def assign_method_def lookup_method_def inherited_def
      object_prototype_def new_registry_def arrow_function_def round_trip_def call_eq
      receiveMessage_def handle_request_def PostRPC_def)

text \<open>
  Claim C1, as stated, at two instances that drew the same instance id: the callee, on
  which \<open>echo\<close> is registered, takes the request for one of its own and ignores it, so
  the caller's Promise is not resolved although \<open>echo\<close> returns 42 on the arguments.
\<close>

theorem round_trip_counterexample:
  "register (PostRPC ''n'' ''*'' 1) ''echo'' (arrow_function 1 ''echo'' echo)
     = Inr ((PostRPC ''n'' ''*'' 1)\<lparr>methods := registry_with ''echo'' echo\<rparr>)
   \<and> echo [JNum 42] = Returns (JNum 42)
   \<and> round_trip (PostRPC ''n'' ''*'' 1)
        ((PostRPC ''n'' ''*'' 1)\<lparr>methods := registry_with ''echo'' echo\<rparr>)
        ''echo'' (JArr [JNum 42]) 7
     = (0, [], (PostRPC ''n'' ''*'' 1)\<lparr>calls := [7 \<mapsto> 0], promises := 1\<rparr>)"
proof (intro conjI)
  show "register (PostRPC ''n'' ''*'' 1) ''echo'' (arrow_function 1 ''echo'' echo)
     = Inr ((PostRPC ''n'' ''*'' 1)\<lparr>methods := registry_with ''echo'' echo\<rparr>)"
    by (rule register_new)
  show "echo [JNum 42] = Returns (JNum 42)"
    by (simp add: echo_def)
  show "round_trip (PostRPC ''n'' ''*'' 1)
        ((PostRPC ''n'' ''*'' 1)\<lparr>methods := registry_with ''echo'' echo\<rparr>)
        ''echo'' (JArr [JNum 42]) 7
     = (0, [], (PostRPC ''n'' ''*'' 1)\<lparr>calls := [7 \<mapsto> 0], promises := 1\<rparr>)"
    by (simp add: round_trip_def call_eq receiveMessage_def handle_request_def PostRPC_def)
qed

text \<open>
  Claim C1, amended. Take a callee whose method registry still has its original prototype
  (nothing has been registered under \<^verbatim>\<open>__proto__\<close>), a function \<open>f\<close> and a non-empty method
  name other than \<^verbatim>\<open>__proto__\<close>. Registering \<open>f\<close> under that name succeeds and makes it an
  own property of the registry. For an argument list on which \<open>f\<close> returns \<open>v\<close> (at once,
  or as a Promise fulfilled with \<open>v\<close>), when the two instances share the namespace and
  have different instance ids, the round trip with the callee so obtained resolves the
  Promise returned by the call to exactly \<open>v\<close>, whatever \<open>v\<close> is, and removes the pending
  call.
\<close>

theorem round_trip_resolves:
  assumes "ns caller = ns callee" and "rpc_id caller \<noteq> rpc_id callee"
    and "m \<noteq> []" and "m \<noteq> ''__proto__''" and "proto (methods callee) = None"
    and "body f as = Returns v \<or> body f as = ReturnsPromise (Fulfil v)"
  shows "register callee m f
       = Inr (callee\<lparr>methods := (methods callee)\<lparr>own := (own (methods callee))(m \<mapsto> f)\<rparr>\<rparr>)
     \<and> round_trip caller
         (callee\<lparr>methods := (methods callee)\<lparr>own := (own (methods callee))(m \<mapsto> f)\<rparr>\<rparr>)
         m (JArr as) r
       = (promises caller, [Resolved (promises caller) v],
          caller\<lparr>calls := (calls caller)(r := None), promises := Suc (promises caller)\<rparr>)"
proof
  let ?callee = "callee\<lparr>methods := (methods callee)\<lparr>own := (own (methods callee))(m \<mapsto> f)\<rparr>\<rparr>"
  show "register callee m f = Inr ?callee"
    using assms(5,4) by (rule register_original)
  have l: "lookup_method (methods ?callee) m = Some (Callable (body f))"
    by (simp add: lookup_method_def)
  have n: "ns caller = ns ?callee" "rpc_id caller \<noteq> rpc_id ?callee"
    using assms(1,2) by simp_all
  show "round_trip caller ?callee m (JArr as) r
       = (promises caller, [Resolved (promises caller) v],
          caller\<lparr>calls := (calls caller)(r := None), promises := Suc (promises caller)\<rparr>)"
    using n assms(3) l assms(6) by (rule round_trip_found)
qed

theorem round_trip_resolves_witness:
  "register (PostRPC ''n'' ''*'' 2) ''echo'' (arrow_function 1 ''echo'' echo)
     = Inr ((PostRPC ''n'' ''*'' 2)\<lparr>methods := registry_with ''echo'' echo\<rparr>)
   \<and> round_trip (PostRPC ''n'' ''*'' 1)
        ((PostRPC ''n'' ''*'' 2)\<lparr>methods := registry_with ''echo'' echo\<rparr>)
        ''echo'' (JArr [JBool False]) 7
     = (0, [Resolved 0 (JBool False)], (PostRPC ''n'' ''*'' 1)\<lparr>promises := 1\<rparr>)"
proof -
  let ?caller = "PostRPC ''n'' ''*'' 1"
  let ?callee = "PostRPC ''n'' ''*'' 2"
  let ?f = "arrow_function 1 ''echo'' echo"
  have a: "ns ?caller = ns ?callee" "rpc_id ?caller \<noteq> rpc_id ?callee" "''echo'' \<noteq> []"
    "''echo'' \<noteq> ''__proto__''" "proto (methods ?callee) = None"
    "body ?f [JBool False] = Returns (JBool False)
      \<or> body ?f [JBool False] = ReturnsPromise (Fulfil (JBool False))"
    by (simp_all add: PostRPC_def new_registry_def echo_def body_arrow_function)
  have b: "?callee\<lparr>methods := (methods ?callee)\<lparr>own := (own (methods ?callee))(''echo'' \<mapsto> ?f)\<rparr>\<rparr>
      = ?callee\<lparr>methods := registry_with ''echo'' echo\<rparr>"
    by (simp add: PostRPC_def new_registry_def registry_with_def)
  have c: "promises ?caller = 0" "calls ?caller = Map.empty"
    by (simp_all add: PostRPC_def)
  have d: "?caller\<lparr>calls := Map.empty(7 := None), promises := Suc 0\<rparr> = ?caller\<lparr>promises := 1\<rparr>"
    by (simp add: PostRPC_def)
  from round_trip_resolves [OF a, of 7]
  show ?thesis unfolding b c d .
qed

section \<open>Loopback\<close>

text \<open>
  Claim C3, at the empty method name. With the send and receive targets the same window,
  the request of \<^verbatim>\<open>call("", [42])\<close> comes back to the instance that sent it; its method is
  falsy, so it is taken for a response: the pending call just recorded is removed and its
  Promise is resolved with \<^verbatim>\<open>undefined\<close>.
\<close>

theorem loopback_empty_method:
  "call_loopback (PostRPC ''n'' ''*'' 1) [] (JArr [JNum 42]) 7
     = (0, (PostRPC ''n'' ''*'' 1)\<lparr>promises := 1\<rparr>, [Resolved 0 JUndefined])"
  by (simp add: call_loopback_def call_eq receiveMessage_def handle_response_def PostRPC_def)

text \<open>For every other method name the instance's own request is ignored, as the source's
  header comment says: nothing is applied, posted or resolved, and the call stays pending.\<close>

lemma loopback_ignored:
  assumes "m \<noteq> []"
  shows "call_loopback s m a r =
     (promises s, s\<lparr>calls := (calls s)(r \<mapsto> promises s), promises := Suc (promises s)\<rparr>, [])"
  using assms by (simp add: call_loopback_def call_eq receiveMessage_def handle_request_def)

lemma own_request_ignored:
  assumes "map_of d (ns s) = Some data" and "meth data = Some m" and "m \<noteq> []"
    and "frm data = Some (rpc_id s)"
  shows "receiveMessage s \<lparr>ev_data = Some d\<rparr> = (s, [], Completed)"
  using assms by (simp add: receiveMessage_def handle_request_def)

section \<open>Methods that are not registered\<close>

text \<open>
  Claim C6, at the method name \<^verbatim>\<open>toString\<close>. Nothing is registered under it, but the read of
  the registry finds \<^verbatim>\<open>Object.prototype.toString\<close>: the request is not logged and dropped,
  the inherited function is applied and its result is sent back as the response, so the
  caller's Promise resolves. The channel listener, with only \<open>echo\<close> registered, does the
  same.
\<close>

theorem unregistered_inherited_method:
  "receiveMessage (PostRPC ''n'' ''*'' 2)
       \<lparr>ev_data = Some [(''__PostRPC_n'', \<lparr>meth = Some ''toString'', args = JArr [],
            callId = Some 7, frm = Some 1, val = JUndefined\<rparr>)]\<rparr>
     = (PostRPC ''n'' ''*'' 2,
        [Applied ''toString'' [],
         PostMessage [(''__PostRPC_n'', \<lparr>meth = None, args = JUndefined, callId = Some 7,
            frm = None, val = JArr [JStr ''[object Null]'']\<rparr>)] ''*''],
        Completed)
   \<and> round_trip (PostRPC ''n'' ''*'' 1) (PostRPC ''n'' ''*'' 2) ''toString'' (JArr []) 7
     = (0, [Resolved 0 (JStr ''[object Null]'')], (PostRPC ''n'' ''*'' 1)\<lparr>promises := 1\<rparr>)
   \<and> listener (registry_with ''echo'' echo)
        \<lparr>cm_method = Some ''toString'', cm_args = JArr []\<rparr>
        \<lparr>sender_tab = None, sender_url = ''popup.html''\<rparr>
     = ([BrowserLog \<lparr>cm_method = Some ''toString'', cm_args = JArr []\<rparr>,
         Invoked ''toString'' [JNull], Reply (JStr ''[object Null]'')], RetFalse, Nothing)"
  by (simp add: round_trip_def call_eq receiveMessage_def handle_request_def handle_response_def
      lookup_method_def inherited_def object_prototype_def sendMessage_def PostRPC_def
      new_registry_def registry_with_def listener_def Let_def tabId_of_def)

text \<open>When the read of the registry finds nothing, the window binding logs and drops the
  request, and the channel listener returns without an answer.\<close>

lemma unknown_method_dropped:
  assumes "map_of d (ns s) = Some data" and "meth data = Some m" and "m \<noteq> []"
    and "frm data \<noteq> Some (rpc_id s)" and "lookup_method (methods s) m = None"
  shows "receiveMessage s \<lparr>ev_data = Some d\<rparr> =
     (s, [ConsoleLog (''PostRPC: no handler for '' @ m)], Completed)"
  using assms by (simp add: receiveMessage_def handle_request_def)

lemma unknown_method_ignored:
  assumes "lookup_method ms (method_key (cm_method msg)) = None"
  shows "listener ms msg sd = ([BrowserLog msg], RetUndefined, Nothing)"
  using assms by (simp add: listener_def)

section \<open>What a call sends\<close>

text \<open>
  Claim C8, as stated, at the channel binding's call \<^verbatim>\<open>Browser.rpc.call(null, 'refreshIcon',
  [1])\<close>: the object sent has the two keys \<^verbatim>\<open>method\<close> and \<^verbatim>\<open>args\<close> at its top level, under
  no namespace key, and carries no correlation id.
\<close>

theorem call_wire_format_counterexample:
  "native_of_send (rpc_call 0 JNull ''refreshIcon'' (JArr [JNum 1]))
     = NObj [(''method'', NStr ''refreshIcon''), (''args'', NVal (JArr [JNum 1]))]
   \<and> \<not> spec_namespaced_request (native_of_send (rpc_call 0 JNull ''refreshIcon'' (JArr [JNum 1])))"
  by (simp add: rpc_call_def native_of_chan_message_def)

text \<open>
  Claim C8, amended. A call on the window binding posts one object with the instance's
  namespace as its single key, whose value carries the method name, the arguments (the
  empty array when they were falsy), the call id drawn for this call and the instance id.
  A call on the channel binding sends the bare object of method name and arguments, with
  no namespace key, no correlation id and no sender id, to the tab when the tab id is
  truthy and to the runtime otherwise, and gives the send the \<^verbatim>\<open>resolve\<close> of the Promise it
  returns as the response callback.
\<close>

theorem call_wire_format:
  "snd (snd (call s m a r)) =
      [PostMessage [(ns s, \<lparr>meth = Some m, args = (if truthy a then a else JArr []),
            callId = Some r, frm = Some (rpc_id s), val = JUndefined\<rparr>)] (targetOrigin s)]
   \<and> map native_of_effect (snd (snd (call s m a r))) =
      [Some (NObj [(ns s, NObj [(''method'', NStr m),
                                (''args'', NVal (if truthy a then a else JArr [])),
                                (''callId'', NNum r), (''from'', NNum (rpc_id s))])])]
   \<and> list_all (\<lambda>e. case native_of_effect e of Some n \<Rightarrow> spec_namespaced_request n | None \<Rightarrow> False)
        (snd (snd (call s m a r)))
   \<and> native_of_send (rpc_call p t m a) = NObj [(''method'', NStr m), (''args'', NVal a)]
   \<and> rpc_call p t m a =
        (if truthy t then TabsSendMessage t \<lparr>cm_method = Some m, cm_args = a\<rparr> p
         else RuntimeSendMessage \<lparr>cm_method = Some m, cm_args = a\<rparr> p)
   \<and> callback (rpc_call p t m a) = p"
proof -
  have t: "(if truthy a then a else JArr []) \<noteq> JUndefined" by (cases a) auto
  have c: "snd (snd (call s m a r)) =
      [PostMessage [(ns s, \<lparr>meth = Some m, args = (if truthy a then a else JArr []),
            callId = Some r, frm = Some (rpc_id s), val = JUndefined\<rparr>)] (targetOrigin s)]"
    by (simp add: call_def Let_def sendMessage_def)
  have n: "native_of_message \<lparr>meth = Some m, args = (if truthy a then a else JArr []),
            callId = Some r, frm = Some (rpc_id s), val = JUndefined\<rparr>
      = NObj [(''method'', NStr m), (''args'', NVal (if truthy a then a else JArr [])),
              (''callId'', NNum r), (''from'', NNum (rpc_id s))]"
    using t by (simp add: native_of_message_def)
  have e: "map native_of_effect (snd (snd (call s m a r))) =
      [Some (NObj [(ns s, NObj [(''method'', NStr m),
                                (''args'', NVal (if truthy a then a else JArr [])),
                                (''callId'', NNum r), (''from'', NNum (rpc_id s))])])]"
    unfolding c using n by simp
  have l: "list_all (\<lambda>e. case native_of_effect e of Some n \<Rightarrow> spec_namespaced_request n | None \<Rightarrow> False)
        (snd (snd (call s m a r)))"
    unfolding c using n by simp
  have s: "native_of_send (rpc_call p t m a) = NObj [(''method'', NStr m), (''args'', NVal a)]"
    by (simp add: rpc_call_def Let_def native_of_chan_message_def)
  have r: "rpc_call p t m a =
        (if truthy t then TabsSendMessage t \<lparr>cm_method = Some m, cm_args = a\<rparr> p
         else RuntimeSendMessage \<lparr>cm_method = Some m, cm_args = a\<rparr> p)"
    by (simp add: rpc_call_def Let_def)
  have k: "callback (rpc_call p t m a) = p"
    by (simp add: rpc_call_def Let_def)
  show ?thesis using c e l s r k by blast
qed

theorem call_wire_format_witness:
  "map native_of_effect (snd (snd (call (PostRPC ''n'' ''*'' 1) ''echo'' (JArr [JNum 42]) 7))) =
      [Some (NObj [(''__PostRPC_n'', NObj [(''method'', NStr ''echo''),
                                (''args'', NVal (JArr [JNum 42])),
                                (''callId'', NNum 7), (''from'', NNum 1)])])]
   \<and> rpc_call 5 (JNum 3) ''closeTab'' (JArr [JNum 3])
       = TabsSendMessage (JNum 3) \<lparr>cm_method = Some ''closeTab'', cm_args = JArr [JNum 3]\<rparr> 5
   \<and> native_of_send (rpc_call 5 (JNum 3) ''closeTab'' (JArr [JNum 3]))
       = NObj [(''method'', NStr ''closeTab''), (''args'', NVal (JArr [JNum 3]))]"
proof -
  have a: "ns (PostRPC ''n'' ''*'' 1) = ''__PostRPC_n''" "rpc_id (PostRPC ''n'' ''*'' 1) = 1"
    by (simp_all add: PostRPC_def)
  have 1: "map native_of_effect (snd (snd (call (PostRPC ''n'' ''*'' 1) ''echo'' (JArr [JNum 42]) 7))) =
      [Some (NObj [(''__PostRPC_n'', NObj [(''method'', NStr ''echo''),
                                (''args'', NVal (JArr [JNum 42])),
                                (''callId'', NNum 7), (''from'', NNum 1)])])]"
    using call_wire_format [of "PostRPC ''n'' ''*'' 1" "''echo''" "JArr [JNum 42]" 7 5 "JNum 3",
        THEN conjunct2, THEN conjunct1]
    by (simp add: a)
  have 2: "native_of_send (rpc_call 5 (JNum 3) ''closeTab'' (JArr [JNum 3]))
       = NObj [(''method'', NStr ''closeTab''), (''args'', NVal (JArr [JNum 3]))]"
    using call_wire_format [of "PostRPC ''n'' ''*'' 1" "''closeTab''" "JArr [JNum 3]" 7 5 "JNum 3",
        THEN conjunct2, THEN conjunct2, THEN conjunct2, THEN conjunct1]
    by simp
  have 3: "rpc_call 5 (JNum 3) ''closeTab'' (JArr [JNum 3])
       = TabsSendMessage (JNum 3) \<lparr>cm_method = Some ''closeTab'', cm_args = JArr [JNum 3]\<rparr> 5"
    using call_wire_format [of "PostRPC ''n'' ''*'' 1" "''closeTab''" "JArr [JNum 3]" 7 5 "JNum 3",
        THEN conjunct2, THEN conjunct2, THEN conjunct2, THEN conjunct2, THEN conjunct1]
    by simp
  show ?thesis using 1 2 3 by blast
qed

section \<open>Call ids\<close>

text \<open>
  Claim C9, as stated, at a second call that draws the call id of a call still pending:
  the id 7 is in the registry, with the first call's continuation, when the second call
  allocates 7 again and posts its request under it; the registry then holds the second
  continuation under 7.
\<close>

theorem call_id_collision_counterexample:
  "calls (fst (call (PostRPC ''n'' ''*'' 1) ''a'' (JArr []) 7)) 7 = Some 0
   \<and> posted (snd (snd (call (fst (call (PostRPC ''n'' ''*'' 1) ''a'' (JArr []) 7)) ''b'' (JArr []) 7)))
       = [[(''__PostRPC_n'', \<lparr>meth = Some ''b'', args = JArr [], callId = Some 7, frm = Some 1,
              val = JUndefined\<rparr>)]]
   \<and> calls (fst (call (fst (call (PostRPC ''n'' ''*'' 1) ''a'' (JArr []) 7)) ''b'' (JArr []) 7)) 7
       = Some 1"
  by (simp add: call_eq PostRPC_def)

text \<open>
  Claim C9, amended. The call registry is keyed by call id, and a call stores its
  continuation under the id it drew, without looking at the registry. When the id drawn is
  not the id of a pending call, the registry gains exactly that id and every pending call
  keeps its own id and continuation; the new continuation is that of the Promise the call
  returns, and the request posted carries the id drawn.
\<close>

theorem call_allocation:
  "(r \<notin> dom (calls s) \<longrightarrow>
      dom (calls (fst (call s m a r))) = insert r (dom (calls s))
    \<and> (\<forall>k \<in> dom (calls s). calls (fst (call s m a r)) k = calls s k \<and> k \<noteq> r))
   \<and> calls (fst (call s m a r)) r = Some (fst (snd (call s m a r)))
   \<and> fst (snd (call s m a r)) = promises s
   \<and> posted (snd (snd (call s m a r))) =
        [[(ns s, \<lparr>meth = Some m, args = (if truthy a then a else JArr []), callId = Some r,
              frm = Some (rpc_id s), val = JUndefined\<rparr>)]]"
  by (auto simp add: call_eq)

theorem call_allocation_witness:
  "dom (calls (fst (call ((PostRPC ''n'' ''*'' 1)\<lparr>calls := [7 \<mapsto> 0], promises := 1\<rparr>) ''b'' (JArr []) 8)))
     = {7, 8}
   \<and> calls (fst (call ((PostRPC ''n'' ''*'' 1)\<lparr>calls := [7 \<mapsto> 0], promises := 1\<rparr>) ''b'' (JArr []) 8)) 7
     = Some 0
   \<and> calls (fst (call ((PostRPC ''n'' ''*'' 1)\<lparr>calls := [7 \<mapsto> 0], promises := 1\<rparr>) ''b'' (JArr []) 8)) 8
     = Some 1"
proof -
  let ?s = "(PostRPC ''n'' ''*'' 1)\<lparr>calls := [7 \<mapsto> 0], promises := 1\<rparr>"
  have a: "8 \<notin> dom (calls ?s)" "dom (calls ?s) = {7}" "calls ?s 7 = Some 0" "promises ?s = 1"
    by simp_all
  from call_allocation [of 8 ?s "''b''" "JArr []"] a
  show ?thesis by auto
qed

end
